theory Spec2Isabelle
  imports Main "HOL-Library.Word"
begin

section \<open>The shared variables of PicoFreeRTOS.c\<close>

text \<open>
  The constants of the \<^verbatim>\<open>#define\<close> block, at the C types of the variables they
  are stored in or compared with: durations and the timeout value against the
  \<^verbatim>\<open>uint16_t\<close> counter, state, colour and mode codes against \<^verbatim>\<open>uint8_t\<close> variables.
\<close>

definition SEMAPHORE_GREEN_DURATION_SEC :: "16 word" where
  "SEMAPHORE_GREEN_DURATION_SEC = 9"

definition SEMAPHORE_RED_DURATION_SEC :: "16 word" where
  "SEMAPHORE_RED_DURATION_SEC = 6"

definition SEMAPHORE_YELLOW_DURATION_SEC :: "16 word" where
  "SEMAPHORE_YELLOW_DURATION_SEC = 3"

definition SEMAPHORE_DURATION_TIMEOUT :: "16 word" where
  "SEMAPHORE_DURATION_TIMEOUT = 0"

definition SEMAPHORE_GREEN_STATE :: "8 word" where
  "SEMAPHORE_GREEN_STATE = 1"

definition SEMAPHORE_RED_STATE :: "8 word" where
  "SEMAPHORE_RED_STATE = 2"

definition SEMAPHORE_YELLOW_STATE :: "8 word" where
  "SEMAPHORE_YELLOW_STATE = 0"

definition SEMAPHORE_LED_COLOR_RED :: "8 word" where
  "SEMAPHORE_LED_COLOR_RED = 0"

definition SEMAPHORE_LED_COLOR_GREEN :: "8 word" where
  "SEMAPHORE_LED_COLOR_GREEN = 1"

definition SEMAPHORE_LED_COLOR_YELLOW :: "8 word" where
  "SEMAPHORE_LED_COLOR_YELLOW = 3"

definition SEMAPHORE_DAILY_MODE :: "8 word" where
  "SEMAPHORE_DAILY_MODE = 0"

definition SEMAPHORE_NIGHT_MODE :: "8 word" where
  "SEMAPHORE_NIGHT_MODE = 1"

lemmas semaphore_consts =
  SEMAPHORE_GREEN_DURATION_SEC_def SEMAPHORE_RED_DURATION_SEC_def
  SEMAPHORE_YELLOW_DURATION_SEC_def SEMAPHORE_DURATION_TIMEOUT_def
  SEMAPHORE_GREEN_STATE_def SEMAPHORE_RED_STATE_def SEMAPHORE_YELLOW_STATE_def
  SEMAPHORE_LED_COLOR_RED_def SEMAPHORE_LED_COLOR_GREEN_def SEMAPHORE_LED_COLOR_YELLOW_def
  SEMAPHORE_DAILY_MODE_def SEMAPHORE_NIGHT_MODE_def

text \<open>
  The four \<^verbatim>\<open>static volatile\<close> globals, with the source's spelling of their names.
  They are file-local, so no library routine (drawing, delay, buzzer) can write them.
\<close>

record globals =
  g_semaphore_counter :: "16 word"
  g_sempahore_state :: "8 word"
  g_semaphore_led_color :: "8 word"
  g_semaphore_mode :: "8 word"

text \<open>The initialisers of the globals: the state at boot.\<close>

definition boot :: globals where
  "boot = \<lparr> g_semaphore_counter = SEMAPHORE_GREEN_DURATION_SEC,
            g_sempahore_state = SEMAPHORE_GREEN_STATE,
            g_semaphore_led_color = SEMAPHORE_LED_COLOR_GREEN,
            g_semaphore_mode = SEMAPHORE_DAILY_MODE \<rparr>"

section \<open>The transition check\<close>

text \<open>
  \<^verbatim>\<open>update_semaphore_counter(current_state)\<close>: the \<^verbatim>\<open>switch\<close> is on the parameter, not
  on the global state variable, and has no \<^verbatim>\<open>default\<close> branch.
\<close>

definition update_semaphore_counter :: "8 word \<Rightarrow> globals \<Rightarrow> globals" where
  "update_semaphore_counter current_state g =
    (if g_semaphore_counter g = SEMAPHORE_DURATION_TIMEOUT then
       (if current_state = SEMAPHORE_GREEN_STATE then
          g\<lparr> g_semaphore_counter := SEMAPHORE_YELLOW_DURATION_SEC,
             g_sempahore_state := SEMAPHORE_YELLOW_STATE,
             g_semaphore_led_color := SEMAPHORE_LED_COLOR_YELLOW \<rparr>
        else if current_state = SEMAPHORE_YELLOW_STATE then
          g\<lparr> g_semaphore_counter := SEMAPHORE_RED_DURATION_SEC,
             g_sempahore_state := SEMAPHORE_RED_STATE,
             g_semaphore_led_color := SEMAPHORE_LED_COLOR_RED \<rparr>
        else if current_state = SEMAPHORE_RED_STATE then
          g\<lparr> g_semaphore_counter := SEMAPHORE_GREEN_DURATION_SEC,
             g_sempahore_state := SEMAPHORE_GREEN_STATE,
             g_semaphore_led_color := SEMAPHORE_LED_COLOR_GREEN \<rparr>
        else g)
     else g)"

section \<open>The mode button\<close>

text \<open>
  One pass of the loop of \<^verbatim>\<open>vPushButtonTask\<close>, up to its 100 ms delay. The argument
  is what \<^verbatim>\<open>gpio_get(BUTTON_A)\<close> returns: the button is taken as pressed when the
  pin reads low.
\<close>

definition vPushButtonTask_pass :: "bool \<Rightarrow> globals \<Rightarrow> globals" where
  "vPushButtonTask_pass button_a_level g =
    (if \<not> button_a_level then
       (if g_semaphore_mode g = SEMAPHORE_NIGHT_MODE then
          g\<lparr> g_semaphore_counter := SEMAPHORE_GREEN_DURATION_SEC,
             g_semaphore_led_color := SEMAPHORE_LED_COLOR_GREEN,
             g_sempahore_state := SEMAPHORE_GREEN_STATE,
             g_semaphore_mode := SEMAPHORE_DAILY_MODE \<rparr>
        else g\<lparr> g_semaphore_mode := SEMAPHORE_NIGHT_MODE \<rparr>)
     else g)"

section \<open>The countdown driver\<close>

text \<open>
  \<^verbatim>\<open>vBlinkTask\<close> draws, sleeps one second, then runs the transition check. The draw
  statement is the only place that decrements the counter: the post-decrement
  \<^verbatim>\<open>g_semaphore_counter--\<close> inside the glyph index, on a \<^verbatim>\<open>uint16_t\<close>, so it wraps.
  It is executed in day mode only.
\<close>

definition vBlinkTask_draw :: "globals \<Rightarrow> globals" where
  "vBlinkTask_draw g =
    (if g_semaphore_mode g = SEMAPHORE_DAILY_MODE then
       g\<lparr> g_semaphore_counter := g_semaphore_counter g - 1 \<rparr>
     else g)"

text \<open>
  The second half of a pass, after the delay: the check is called with the value the
  state variable has at that moment, whatever the mode is.
\<close>

definition vBlinkTask_check :: "globals \<Rightarrow> globals" where
  "vBlinkTask_check g = update_semaphore_counter (g_sempahore_state g) g"

text \<open>One whole pass of the loop of \<^verbatim>\<open>vBlinkTask\<close> with nothing running in between.\<close>

definition vBlinkTask_pass :: "globals \<Rightarrow> globals" where
  "vBlinkTask_pass g = vBlinkTask_check (vBlinkTask_draw g)"

section \<open>The display presenter\<close>

text \<open>
  One pass of the loop of \<^verbatim>\<open>vDisplayTask\<close> as the list of calls it makes on the OLED
  driver, in order.
\<close>

datatype oled_call =
  Oledgfx_clear_line nat
  | Ssd1306_draw_string string nat nat
  | Oledgfx_render

definition vDisplayTask_pass :: "globals \<Rightarrow> oled_call list" where
  "vDisplayTask_pass g =
    Oledgfx_clear_line 40 #
    (if g_semaphore_mode g = SEMAPHORE_DAILY_MODE then
       (if g_sempahore_state g = SEMAPHORE_GREEN_STATE then
          [Ssd1306_draw_string ''Siga'' 24 40]
        else if g_sempahore_state g = SEMAPHORE_YELLOW_STATE then
          [Ssd1306_draw_string ''Atencao'' 24 40]
        else if g_sempahore_state g = SEMAPHORE_RED_STATE then
          [Ssd1306_draw_string ''Pare'' 24 40]
        else [])
     else []) @
    [Oledgfx_render]"

section \<open>The tasks running together\<close>

text \<open>
  The driver task is either about to draw or asleep between the draw and the check; the
  button task makes a pass whenever it is scheduled, at either point. An event is one
  such step; a run is a sequence of events from boot.
\<close>

datatype blink_pc = Before_draw | In_delay

datatype event = Blink_runs | Button_polls bool

fun step :: "event \<Rightarrow> blink_pc \<times> globals \<Rightarrow> blink_pc \<times> globals" where
  "step Blink_runs (Before_draw, g) = (In_delay, vBlinkTask_draw g)"
| "step Blink_runs (In_delay, g) = (Before_draw, vBlinkTask_check g)"
| "step (Button_polls level) (pc, g) = (pc, vPushButtonTask_pass level g)"

definition run :: "event list \<Rightarrow> blink_pc \<times> globals" where
  "run es = fold step es (Before_draw, boot)"

section \<open>What holds in every run\<close>

text \<open>
  The state variable holds one of the three defined codes, the colour variable holds the
  colour written together with it, and the counter is at most the duration written
  together with it.
\<close>

definition paired :: "globals \<Rightarrow> bool" where
  "paired g \<longleftrightarrow>
     (g_sempahore_state g = SEMAPHORE_GREEN_STATE \<and>
        g_semaphore_led_color g = SEMAPHORE_LED_COLOR_GREEN \<and>
        g_semaphore_counter g \<le> SEMAPHORE_GREEN_DURATION_SEC) \<or>
     (g_sempahore_state g = SEMAPHORE_YELLOW_STATE \<and>
        g_semaphore_led_color g = SEMAPHORE_LED_COLOR_YELLOW \<and>
        g_semaphore_counter g \<le> SEMAPHORE_YELLOW_DURATION_SEC) \<or>
     (g_sempahore_state g = SEMAPHORE_RED_STATE \<and>
        g_semaphore_led_color g = SEMAPHORE_LED_COLOR_RED \<and>
        g_semaphore_counter g \<le> SEMAPHORE_RED_DURATION_SEC)"

text \<open>When the driver is about to draw, the counter is moreover not zero.\<close>

fun sys_inv :: "blink_pc \<times> globals \<Rightarrow> bool" where
  "sys_inv (Before_draw, g) \<longleftrightarrow> paired g \<and> g_semaphore_counter g \<noteq> 0"
| "sys_inv (In_delay, g) \<longleftrightarrow> paired g"

section \<open>Single steps on explicit values\<close>

lemma draw_day:
  "vBlinkTask_draw \<lparr> g_semaphore_counter = c, g_sempahore_state = s,
       g_semaphore_led_color = k, g_semaphore_mode = 0 \<rparr>
   = \<lparr> g_semaphore_counter = c - 1, g_sempahore_state = s,
       g_semaphore_led_color = k, g_semaphore_mode = 0 \<rparr>"
  by (simp add: vBlinkTask_draw_def SEMAPHORE_DAILY_MODE_def)

lemma draw_night:
  "vBlinkTask_draw \<lparr> g_semaphore_counter = c, g_sempahore_state = s,
       g_semaphore_led_color = k, g_semaphore_mode = 1 \<rparr>
   = \<lparr> g_semaphore_counter = c, g_sempahore_state = s,
       g_semaphore_led_color = k, g_semaphore_mode = 1 \<rparr>"
  by (simp add: vBlinkTask_draw_def SEMAPHORE_DAILY_MODE_def)

lemma check_idle:
  "c \<noteq> 0 \<Longrightarrow>
   vBlinkTask_check \<lparr> g_semaphore_counter = c, g_sempahore_state = s,
       g_semaphore_led_color = k, g_semaphore_mode = m \<rparr>
   = \<lparr> g_semaphore_counter = c, g_sempahore_state = s,
       g_semaphore_led_color = k, g_semaphore_mode = m \<rparr>"
  by (simp add: vBlinkTask_check_def update_semaphore_counter_def
        SEMAPHORE_DURATION_TIMEOUT_def)

lemma check_green:
  "vBlinkTask_check \<lparr> g_semaphore_counter = 0, g_sempahore_state = 1,
       g_semaphore_led_color = k, g_semaphore_mode = m \<rparr>
   = \<lparr> g_semaphore_counter = 3, g_sempahore_state = 0,
       g_semaphore_led_color = 3, g_semaphore_mode = m \<rparr>"
  by (simp add: vBlinkTask_check_def update_semaphore_counter_def semaphore_consts)

lemma check_yellow:
  "vBlinkTask_check \<lparr> g_semaphore_counter = 0, g_sempahore_state = 0,
       g_semaphore_led_color = k, g_semaphore_mode = m \<rparr>
   = \<lparr> g_semaphore_counter = 6, g_sempahore_state = 2,
       g_semaphore_led_color = 0, g_semaphore_mode = m \<rparr>"
  by (simp add: vBlinkTask_check_def update_semaphore_counter_def semaphore_consts)

lemma check_red:
  "vBlinkTask_check \<lparr> g_semaphore_counter = 0, g_sempahore_state = 2,
       g_semaphore_led_color = k, g_semaphore_mode = m \<rparr>
   = \<lparr> g_semaphore_counter = 9, g_sempahore_state = 1,
       g_semaphore_led_color = 1, g_semaphore_mode = m \<rparr>"
  by (simp add: vBlinkTask_check_def update_semaphore_counter_def semaphore_consts)

lemma button_from_night:
  "vPushButtonTask_pass False \<lparr> g_semaphore_counter = c, g_sempahore_state = s,
       g_semaphore_led_color = k, g_semaphore_mode = 1 \<rparr>
   = \<lparr> g_semaphore_counter = 9, g_sempahore_state = 1,
       g_semaphore_led_color = 1, g_semaphore_mode = 0 \<rparr>"
  by (simp add: vPushButtonTask_pass_def semaphore_consts)

lemma button_from_day:
  "vPushButtonTask_pass False \<lparr> g_semaphore_counter = c, g_sempahore_state = s,
       g_semaphore_led_color = k, g_semaphore_mode = 0 \<rparr>
   = \<lparr> g_semaphore_counter = c, g_sempahore_state = s,
       g_semaphore_led_color = k, g_semaphore_mode = 1 \<rparr>"
  by (simp add: vPushButtonTask_pass_def semaphore_consts)

lemmas explicit_steps =
  draw_day draw_night check_idle check_green check_yellow check_red
  button_from_night button_from_day

section \<open>The invariant of the runs\<close>

lemma word16_pred_le: "(c :: 16 word) \<noteq> 0 \<Longrightarrow> c \<le> d \<Longrightarrow> c - 1 \<le> d"
  by (metis word_le_nat_alt unat_minus_one diff_le_self le_trans)

lemma paired_boot: "paired boot"
  by (simp add: paired_def boot_def semaphore_consts)

lemma boot_nonzero: "g_semaphore_counter boot \<noteq> 0"
  by (simp add: boot_def semaphore_consts)

lemma paired_draw:
  "paired g \<Longrightarrow> g_semaphore_counter g \<noteq> 0 \<Longrightarrow> paired (vBlinkTask_draw g)"
  by (auto simp: paired_def vBlinkTask_draw_def word16_pred_le)

lemma paired_check: "paired g \<Longrightarrow> paired (vBlinkTask_check g)"
  by (auto simp: paired_def vBlinkTask_check_def update_semaphore_counter_def
        semaphore_consts)

lemma check_nonzero: "paired g \<Longrightarrow> g_semaphore_counter (vBlinkTask_check g) \<noteq> 0"
  by (auto simp: paired_def vBlinkTask_check_def update_semaphore_counter_def
        semaphore_consts)

lemma paired_button: "paired g \<Longrightarrow> paired (vPushButtonTask_pass level g)"
  by (auto simp: paired_def vPushButtonTask_pass_def semaphore_consts)

lemma button_nonzero:
  "g_semaphore_counter g \<noteq> 0 \<Longrightarrow>
   g_semaphore_counter (vPushButtonTask_pass level g) \<noteq> 0"
  by (auto simp: vPushButtonTask_pass_def semaphore_consts)

lemma sys_inv_step: "sys_inv c \<Longrightarrow> sys_inv (step e c)"
proof (cases c)
  case (Pair pc g)
  assume inv: "sys_inv c"
  show ?thesis
  proof (cases e)
    case Blink_runs
    with Pair inv show ?thesis
      by (cases pc) (simp_all add: paired_draw paired_check check_nonzero)
  next
    case (Button_polls level)
    with Pair inv show ?thesis
      by (cases pc) (simp_all add: paired_button button_nonzero)
  qed
qed

lemma sys_inv_fold: "sys_inv c \<Longrightarrow> sys_inv (fold step es c)"
  by (induction es arbitrary: c) (simp_all add: sys_inv_step)

lemma sys_inv_run: "sys_inv (run es)"
  unfolding run_def by (rule sys_inv_fold) (simp add: paired_boot boot_nonzero)

lemma paired_run: "paired (snd (run es))"
proof (cases "run es")
  case (Pair pc g)
  with sys_inv_run [of es] show ?thesis by (cases pc) simp_all
qed

section \<open>Frame of the transition check\<close>

text \<open>
  C10. \<^verbatim>\<open>update_semaphore_counter\<close> changes nothing unless it fires: when the counter
  is not zero, and when the state passed is none of the three defined ones (the switch
  has no default), even at counter zero, the four shared variables are as before.
\<close>

theorem update_semaphore_counter_frame:
  "g_semaphore_counter g \<noteq> 0 \<or>
   current_state \<notin> {SEMAPHORE_GREEN_STATE, SEMAPHORE_YELLOW_STATE, SEMAPHORE_RED_STATE}
   \<Longrightarrow> update_semaphore_counter current_state g = g"
  by (auto simp: update_semaphore_counter_def SEMAPHORE_DURATION_TIMEOUT_def)

theorem update_semaphore_counter_frame_witness:
  "update_semaphore_counter SEMAPHORE_GREEN_STATE
     \<lparr> g_semaphore_counter = 4, g_sempahore_state = SEMAPHORE_GREEN_STATE,
       g_semaphore_led_color = SEMAPHORE_LED_COLOR_GREEN,
       g_semaphore_mode = SEMAPHORE_DAILY_MODE \<rparr>
   = \<lparr> g_semaphore_counter = 4, g_sempahore_state = SEMAPHORE_GREEN_STATE,
       g_semaphore_led_color = SEMAPHORE_LED_COLOR_GREEN,
       g_semaphore_mode = SEMAPHORE_DAILY_MODE \<rparr>
   \<and> update_semaphore_counter 7
     \<lparr> g_semaphore_counter = 0, g_sempahore_state = 7,
       g_semaphore_led_color = SEMAPHORE_LED_COLOR_RED,
       g_semaphore_mode = SEMAPHORE_DAILY_MODE \<rparr>
   = \<lparr> g_semaphore_counter = 0, g_sempahore_state = 7,
       g_semaphore_led_color = SEMAPHORE_LED_COLOR_RED,
       g_semaphore_mode = SEMAPHORE_DAILY_MODE \<rparr>"
proof -
  have a: "(4 :: 16 word) \<noteq> 0" by simp
  have b: "(7 :: 8 word) \<notin>
      {SEMAPHORE_GREEN_STATE, SEMAPHORE_YELLOW_STATE, SEMAPHORE_RED_STATE}"
    by (simp add: semaphore_consts)
  show ?thesis
    using update_semaphore_counter_frame
            [of "\<lparr> g_semaphore_counter = 4, g_sempahore_state = SEMAPHORE_GREEN_STATE,
                   g_semaphore_led_color = SEMAPHORE_LED_COLOR_GREEN,
                   g_semaphore_mode = SEMAPHORE_DAILY_MODE \<rparr>" SEMAPHORE_GREEN_STATE]
          update_semaphore_counter_frame
            [of "\<lparr> g_semaphore_counter = 0, g_sempahore_state = 7,
                   g_semaphore_led_color = SEMAPHORE_LED_COLOR_RED,
                   g_semaphore_mode = SEMAPHORE_DAILY_MODE \<rparr>" 7]
          a b
    by simp
qed

section \<open>The driver in night mode\<close>

text \<open>
  C1, as the code has it. In night mode the draw statement of \<^verbatim>\<open>vBlinkTask\<close> does not
  decrement: it leaves the four shared variables as they are. A whole pass of the driver,
  the transition check at its end included, leaves phase, remaining and colour (and the
  mode) unchanged whenever remaining is not zero.
\<close>

theorem vBlinkTask_night_frame:
  "g_semaphore_mode g = SEMAPHORE_NIGHT_MODE \<Longrightarrow>
   vBlinkTask_draw g = g \<and> (g_semaphore_counter g \<noteq> 0 \<longrightarrow> vBlinkTask_pass g = g)"
  by (simp add: vBlinkTask_pass_def vBlinkTask_check_def vBlinkTask_draw_def
        update_semaphore_counter_def semaphore_consts)

theorem vBlinkTask_night_frame_witness:
  "vBlinkTask_draw
     \<lparr> g_semaphore_counter = 4, g_sempahore_state = SEMAPHORE_RED_STATE,
       g_semaphore_led_color = SEMAPHORE_LED_COLOR_RED,
       g_semaphore_mode = SEMAPHORE_NIGHT_MODE \<rparr>
   = \<lparr> g_semaphore_counter = 4, g_sempahore_state = SEMAPHORE_RED_STATE,
       g_semaphore_led_color = SEMAPHORE_LED_COLOR_RED,
       g_semaphore_mode = SEMAPHORE_NIGHT_MODE \<rparr>
   \<and> vBlinkTask_pass
     \<lparr> g_semaphore_counter = 4, g_sempahore_state = SEMAPHORE_RED_STATE,
       g_semaphore_led_color = SEMAPHORE_LED_COLOR_RED,
       g_semaphore_mode = SEMAPHORE_NIGHT_MODE \<rparr>
   = \<lparr> g_semaphore_counter = 4, g_sempahore_state = SEMAPHORE_RED_STATE,
       g_semaphore_led_color = SEMAPHORE_LED_COLOR_RED,
       g_semaphore_mode = SEMAPHORE_NIGHT_MODE \<rparr>"
  using vBlinkTask_night_frame
          [of "\<lparr> g_semaphore_counter = 4, g_sempahore_state = SEMAPHORE_RED_STATE,
                 g_semaphore_led_color = SEMAPHORE_LED_COLOR_RED,
                 g_semaphore_mode = SEMAPHORE_NIGHT_MODE \<rparr>"]
  by simp

text \<open>
  C1 as stated fails at remaining = 0. The run below reaches it: the driver counts green
  down from 9 to 0 and sleeps, the button is pressed during that sleep and the mode
  becomes night, then the driver wakes up and its transition check, which does not look at
  the mode, moves green to yellow and puts 3 in the counter.
\<close>

theorem vBlinkTask_night_counterexample:
  "run (replicate 17 Blink_runs @ [Button_polls False])
   = (In_delay,
      \<lparr> g_semaphore_counter = 0, g_sempahore_state = SEMAPHORE_GREEN_STATE,
        g_semaphore_led_color = SEMAPHORE_LED_COLOR_GREEN,
        g_semaphore_mode = SEMAPHORE_NIGHT_MODE \<rparr>)
   \<and> run (replicate 17 Blink_runs @ [Button_polls False, Blink_runs])
   = (Before_draw,
      \<lparr> g_semaphore_counter = 3, g_sempahore_state = SEMAPHORE_YELLOW_STATE,
        g_semaphore_led_color = SEMAPHORE_LED_COLOR_YELLOW,
        g_semaphore_mode = SEMAPHORE_NIGHT_MODE \<rparr>)
   \<and> vBlinkTask_pass
      \<lparr> g_semaphore_counter = 0, g_sempahore_state = SEMAPHORE_GREEN_STATE,
        g_semaphore_led_color = SEMAPHORE_LED_COLOR_GREEN,
        g_semaphore_mode = SEMAPHORE_NIGHT_MODE \<rparr>
   = \<lparr> g_semaphore_counter = 3, g_sempahore_state = SEMAPHORE_YELLOW_STATE,
       g_semaphore_led_color = SEMAPHORE_LED_COLOR_YELLOW,
       g_semaphore_mode = SEMAPHORE_NIGHT_MODE \<rparr>
   \<and> SEMAPHORE_YELLOW_STATE \<noteq> SEMAPHORE_GREEN_STATE
   \<and> (3 :: 16 word) \<noteq> 0"
proof (intro conjI)
  show "run (replicate 17 Blink_runs @ [Button_polls False])
    = (In_delay,
       \<lparr> g_semaphore_counter = 0, g_sempahore_state = SEMAPHORE_GREEN_STATE,
         g_semaphore_led_color = SEMAPHORE_LED_COLOR_GREEN,
         g_semaphore_mode = SEMAPHORE_NIGHT_MODE \<rparr>)"
    unfolding run_def boot_def semaphore_consts
    by (simp add: eval_nat_numeral) (simp add: explicit_steps)
  show "run (replicate 17 Blink_runs @ [Button_polls False, Blink_runs])
    = (Before_draw,
       \<lparr> g_semaphore_counter = 3, g_sempahore_state = SEMAPHORE_YELLOW_STATE,
         g_semaphore_led_color = SEMAPHORE_LED_COLOR_YELLOW,
         g_semaphore_mode = SEMAPHORE_NIGHT_MODE \<rparr>)"
    unfolding run_def boot_def semaphore_consts
    by (simp add: eval_nat_numeral) (simp add: explicit_steps)
  show "vBlinkTask_pass
      \<lparr> g_semaphore_counter = 0, g_sempahore_state = SEMAPHORE_GREEN_STATE,
        g_semaphore_led_color = SEMAPHORE_LED_COLOR_GREEN,
        g_semaphore_mode = SEMAPHORE_NIGHT_MODE \<rparr>
    = \<lparr> g_semaphore_counter = 3, g_sempahore_state = SEMAPHORE_YELLOW_STATE,
        g_semaphore_led_color = SEMAPHORE_LED_COLOR_YELLOW,
        g_semaphore_mode = SEMAPHORE_NIGHT_MODE \<rparr>"
    unfolding vBlinkTask_pass_def semaphore_consts by (simp add: explicit_steps)
  show "SEMAPHORE_YELLOW_STATE \<noteq> SEMAPHORE_GREEN_STATE"
    by (simp add: semaphore_consts)
  show "(3 :: 16 word) \<noteq> 0" by simp
qed

section \<open>The decrement\<close>

text \<open>
  C2 as stated fails: the decrement is the plain post-decrement of a \<^verbatim>\<open>uint16_t\<close>, and
  applied in day mode at remaining = 0 it wraps to 65535.
\<close>

theorem vBlinkTask_draw_wraps_counterexample:
  "vBlinkTask_draw
     \<lparr> g_semaphore_counter = 0, g_sempahore_state = SEMAPHORE_GREEN_STATE,
       g_semaphore_led_color = SEMAPHORE_LED_COLOR_GREEN,
       g_semaphore_mode = SEMAPHORE_DAILY_MODE \<rparr>
   = \<lparr> g_semaphore_counter = 65535, g_sempahore_state = SEMAPHORE_GREEN_STATE,
       g_semaphore_led_color = SEMAPHORE_LED_COLOR_GREEN,
       g_semaphore_mode = SEMAPHORE_DAILY_MODE \<rparr>
   \<and> unat (65535 :: 16 word) = 65535"
  unfolding semaphore_consts by (simp add: explicit_steps)

text \<open>
  C2, as the code has it. The driver never decrements at zero: in every run from boot,
  whenever the driver is about to draw, remaining is at least 1, and in day mode the
  decrement lowers it by exactly one, with no wrap-around. Whenever the driver is in its
  sleep, the transition check that follows leaves remaining nonzero: a zero is consumed by
  that one check. And the check changes nothing in a state with remaining above zero, so no
  phase transition starts from there.
\<close>

theorem countdown_never_wraps:
  "(run es = (Before_draw, g) \<longrightarrow>
      g_semaphore_counter g \<noteq> 0 \<and>
      (g_semaphore_mode g = SEMAPHORE_DAILY_MODE \<longrightarrow>
         unat (g_semaphore_counter (vBlinkTask_draw g)) + 1 = unat (g_semaphore_counter g)))
   \<and> (run es = (In_delay, g) \<longrightarrow> g_semaphore_counter (vBlinkTask_check g) \<noteq> 0)
   \<and> (g_semaphore_counter g \<noteq> 0 \<longrightarrow> update_semaphore_counter current_state g = g)"
proof (intro conjI impI)
  assume r: "run es = (Before_draw, g)"
  from sys_inv_run [of es] r show nz: "g_semaphore_counter g \<noteq> 0" by simp
  assume "g_semaphore_mode g = SEMAPHORE_DAILY_MODE"
  then have "g_semaphore_counter (vBlinkTask_draw g) = g_semaphore_counter g - 1"
    by (simp add: vBlinkTask_draw_def)
  moreover from nz have "unat (g_semaphore_counter g) \<noteq> 0"
    by (simp add: unat_eq_0)
  ultimately show
    "unat (g_semaphore_counter (vBlinkTask_draw g)) + 1 = unat (g_semaphore_counter g)"
    using nz by (simp add: unat_minus_one)
next
  assume r: "run es = (In_delay, g)"
  from sys_inv_run [of es] r have "paired g" by simp
  then show "g_semaphore_counter (vBlinkTask_check g) \<noteq> 0" by (rule check_nonzero)
next
  assume "g_semaphore_counter g \<noteq> 0"
  then show "update_semaphore_counter current_state g = g"
    by (simp add: update_semaphore_counter_def SEMAPHORE_DURATION_TIMEOUT_def)
qed

theorem countdown_never_wraps_witness:
  "g_semaphore_counter boot \<noteq> 0
   \<and> unat (g_semaphore_counter (vBlinkTask_draw boot)) + 1 = unat (g_semaphore_counter boot)
   \<and> update_semaphore_counter SEMAPHORE_GREEN_STATE boot = boot
   \<and> g_semaphore_counter (vBlinkTask_check (vBlinkTask_draw boot)) \<noteq> 0"
proof -
  have a: "run [] = (Before_draw, boot)"
    by (simp add: run_def)
  have b: "run [Blink_runs] = (In_delay, vBlinkTask_draw boot)"
    by (simp add: run_def)
  have c: "g_semaphore_mode boot = SEMAPHORE_DAILY_MODE"
    by (simp add: boot_def)
  show ?thesis
    using countdown_never_wraps [of "[]" boot SEMAPHORE_GREEN_STATE]
          countdown_never_wraps [of "[Blink_runs]" "vBlinkTask_draw boot" SEMAPHORE_GREEN_STATE]
          a b c
    by simp
qed

section \<open>The day cycle\<close>

text \<open>
  C3. In day mode the phases follow green, yellow, red, green with the durations 9, 3
  and 6. From the boot state (day, green, 9): nine decrements give remaining 0, still
  green; the transition check gives (yellow, 3); three decrements and the check give
  (red, 6); six decrements and the check give (green, 9), the boot state again. The same
  holds for whole passes of the driver, where the check runs after every decrement: 9
  passes end in (yellow, 3), 3 more in (red, 6), 6 more in the boot state.
\<close>

theorem day_cycle_scenario:
  "(vBlinkTask_draw ^^ 9) boot
   = \<lparr> g_semaphore_counter = 0, g_sempahore_state = SEMAPHORE_GREEN_STATE,
       g_semaphore_led_color = SEMAPHORE_LED_COLOR_GREEN,
       g_semaphore_mode = SEMAPHORE_DAILY_MODE \<rparr>
   \<and> vBlinkTask_check ((vBlinkTask_draw ^^ 9) boot)
   = \<lparr> g_semaphore_counter = 3, g_sempahore_state = SEMAPHORE_YELLOW_STATE,
       g_semaphore_led_color = SEMAPHORE_LED_COLOR_YELLOW,
       g_semaphore_mode = SEMAPHORE_DAILY_MODE \<rparr>
   \<and> (vBlinkTask_draw ^^ 3) (vBlinkTask_check ((vBlinkTask_draw ^^ 9) boot))
   = \<lparr> g_semaphore_counter = 0, g_sempahore_state = SEMAPHORE_YELLOW_STATE,
       g_semaphore_led_color = SEMAPHORE_LED_COLOR_YELLOW,
       g_semaphore_mode = SEMAPHORE_DAILY_MODE \<rparr>
   \<and> vBlinkTask_check
       ((vBlinkTask_draw ^^ 3) (vBlinkTask_check ((vBlinkTask_draw ^^ 9) boot)))
   = \<lparr> g_semaphore_counter = 6, g_sempahore_state = SEMAPHORE_RED_STATE,
       g_semaphore_led_color = SEMAPHORE_LED_COLOR_RED,
       g_semaphore_mode = SEMAPHORE_DAILY_MODE \<rparr>
   \<and> (vBlinkTask_draw ^^ 6) (vBlinkTask_check
       ((vBlinkTask_draw ^^ 3) (vBlinkTask_check ((vBlinkTask_draw ^^ 9) boot))))
   = \<lparr> g_semaphore_counter = 0, g_sempahore_state = SEMAPHORE_RED_STATE,
       g_semaphore_led_color = SEMAPHORE_LED_COLOR_RED,
       g_semaphore_mode = SEMAPHORE_DAILY_MODE \<rparr>
   \<and> vBlinkTask_check ((vBlinkTask_draw ^^ 6) (vBlinkTask_check
       ((vBlinkTask_draw ^^ 3) (vBlinkTask_check ((vBlinkTask_draw ^^ 9) boot)))))
   = boot
   \<and> (vBlinkTask_pass ^^ 9) boot
   = \<lparr> g_semaphore_counter = 3, g_sempahore_state = SEMAPHORE_YELLOW_STATE,
       g_semaphore_led_color = SEMAPHORE_LED_COLOR_YELLOW,
       g_semaphore_mode = SEMAPHORE_DAILY_MODE \<rparr>
   \<and> (vBlinkTask_pass ^^ 3) ((vBlinkTask_pass ^^ 9) boot)
   = \<lparr> g_semaphore_counter = 6, g_sempahore_state = SEMAPHORE_RED_STATE,
       g_semaphore_led_color = SEMAPHORE_LED_COLOR_RED,
       g_semaphore_mode = SEMAPHORE_DAILY_MODE \<rparr>
   \<and> (vBlinkTask_pass ^^ 6) ((vBlinkTask_pass ^^ 3) ((vBlinkTask_pass ^^ 9) boot))
   = boot"
proof -
  have green: "(vBlinkTask_draw ^^ 9) boot
      = \<lparr> g_semaphore_counter = 0, g_sempahore_state = SEMAPHORE_GREEN_STATE,
          g_semaphore_led_color = SEMAPHORE_LED_COLOR_GREEN,
          g_semaphore_mode = SEMAPHORE_DAILY_MODE \<rparr>"
    unfolding boot_def semaphore_consts
    by (simp add: eval_nat_numeral) (simp add: explicit_steps)
  have to_yellow: "vBlinkTask_check
        \<lparr> g_semaphore_counter = 0, g_sempahore_state = SEMAPHORE_GREEN_STATE,
          g_semaphore_led_color = SEMAPHORE_LED_COLOR_GREEN,
          g_semaphore_mode = SEMAPHORE_DAILY_MODE \<rparr>
      = \<lparr> g_semaphore_counter = 3, g_sempahore_state = SEMAPHORE_YELLOW_STATE,
          g_semaphore_led_color = SEMAPHORE_LED_COLOR_YELLOW,
          g_semaphore_mode = SEMAPHORE_DAILY_MODE \<rparr>"
    unfolding semaphore_consts by (simp add: explicit_steps)
  have yellow: "(vBlinkTask_draw ^^ 3)
        \<lparr> g_semaphore_counter = 3, g_sempahore_state = SEMAPHORE_YELLOW_STATE,
          g_semaphore_led_color = SEMAPHORE_LED_COLOR_YELLOW,
          g_semaphore_mode = SEMAPHORE_DAILY_MODE \<rparr>
      = \<lparr> g_semaphore_counter = 0, g_sempahore_state = SEMAPHORE_YELLOW_STATE,
          g_semaphore_led_color = SEMAPHORE_LED_COLOR_YELLOW,
          g_semaphore_mode = SEMAPHORE_DAILY_MODE \<rparr>"
    unfolding semaphore_consts
    by (simp add: eval_nat_numeral) (simp add: explicit_steps)
  have to_red: "vBlinkTask_check
        \<lparr> g_semaphore_counter = 0, g_sempahore_state = SEMAPHORE_YELLOW_STATE,
          g_semaphore_led_color = SEMAPHORE_LED_COLOR_YELLOW,
          g_semaphore_mode = SEMAPHORE_DAILY_MODE \<rparr>
      = \<lparr> g_semaphore_counter = 6, g_sempahore_state = SEMAPHORE_RED_STATE,
          g_semaphore_led_color = SEMAPHORE_LED_COLOR_RED,
          g_semaphore_mode = SEMAPHORE_DAILY_MODE \<rparr>"
    unfolding semaphore_consts by (simp add: explicit_steps)
  have red: "(vBlinkTask_draw ^^ 6)
        \<lparr> g_semaphore_counter = 6, g_sempahore_state = SEMAPHORE_RED_STATE,
          g_semaphore_led_color = SEMAPHORE_LED_COLOR_RED,
          g_semaphore_mode = SEMAPHORE_DAILY_MODE \<rparr>
      = \<lparr> g_semaphore_counter = 0, g_sempahore_state = SEMAPHORE_RED_STATE,
          g_semaphore_led_color = SEMAPHORE_LED_COLOR_RED,
          g_semaphore_mode = SEMAPHORE_DAILY_MODE \<rparr>"
    unfolding semaphore_consts
    by (simp add: eval_nat_numeral) (simp add: explicit_steps)
  have to_green: "vBlinkTask_check
        \<lparr> g_semaphore_counter = 0, g_sempahore_state = SEMAPHORE_RED_STATE,
          g_semaphore_led_color = SEMAPHORE_LED_COLOR_RED,
          g_semaphore_mode = SEMAPHORE_DAILY_MODE \<rparr>
      = boot"
    unfolding boot_def semaphore_consts by (simp add: explicit_steps)
  have pass_green: "(vBlinkTask_pass ^^ 9) boot
      = \<lparr> g_semaphore_counter = 3, g_sempahore_state = SEMAPHORE_YELLOW_STATE,
          g_semaphore_led_color = SEMAPHORE_LED_COLOR_YELLOW,
          g_semaphore_mode = SEMAPHORE_DAILY_MODE \<rparr>"
    unfolding boot_def vBlinkTask_pass_def semaphore_consts
    by (simp add: eval_nat_numeral) (simp add: explicit_steps)
  have pass_yellow: "(vBlinkTask_pass ^^ 3)
        \<lparr> g_semaphore_counter = 3, g_sempahore_state = SEMAPHORE_YELLOW_STATE,
          g_semaphore_led_color = SEMAPHORE_LED_COLOR_YELLOW,
          g_semaphore_mode = SEMAPHORE_DAILY_MODE \<rparr>
      = \<lparr> g_semaphore_counter = 6, g_sempahore_state = SEMAPHORE_RED_STATE,
          g_semaphore_led_color = SEMAPHORE_LED_COLOR_RED,
          g_semaphore_mode = SEMAPHORE_DAILY_MODE \<rparr>"
    unfolding vBlinkTask_pass_def semaphore_consts
    by (simp add: eval_nat_numeral) (simp add: explicit_steps)
  have pass_red: "(vBlinkTask_pass ^^ 6)
        \<lparr> g_semaphore_counter = 6, g_sempahore_state = SEMAPHORE_RED_STATE,
          g_semaphore_led_color = SEMAPHORE_LED_COLOR_RED,
          g_semaphore_mode = SEMAPHORE_DAILY_MODE \<rparr>
      = boot"
    unfolding boot_def vBlinkTask_pass_def semaphore_consts
    by (simp add: eval_nat_numeral) (simp add: explicit_steps)
  show ?thesis
    by (simp only: green to_yellow yellow to_red red to_green
          pass_green pass_yellow pass_red simp_thms)
qed

section \<open>Remaining stays within the duration of the phase\<close>

text \<open>
  C4. In every state reached from the boot state (day, green, 9) by steps of the driver
  (decrement, transition check) and passes of the button task, with the button pressed
  or not, remaining is between 0 and the duration of the current phase: 9 in green, 3 in
  yellow, 6 in red. The counter is unsigned and the comparison is the unsigned one, so
  the lower bound 0 always holds.
\<close>

theorem remaining_within_duration:
  "(g_sempahore_state (snd (run es)) = SEMAPHORE_GREEN_STATE \<and>
      unat (g_semaphore_counter (snd (run es))) \<le> 9) \<or>
   (g_sempahore_state (snd (run es)) = SEMAPHORE_YELLOW_STATE \<and>
      unat (g_semaphore_counter (snd (run es))) \<le> 3) \<or>
   (g_sempahore_state (snd (run es)) = SEMAPHORE_RED_STATE \<and>
      unat (g_semaphore_counter (snd (run es))) \<le> 6)"
  using paired_run [of es]
  by (auto simp: paired_def word_le_nat_alt SEMAPHORE_GREEN_DURATION_SEC_def
        SEMAPHORE_YELLOW_DURATION_SEC_def SEMAPHORE_RED_DURATION_SEC_def)

section \<open>The colour follows the phase\<close>

text \<open>
  C9. The three phases have three different colour codes, and in every state reached
  from boot by steps of the driver and passes of the button task the stored colour is
  the colour of the current phase: green with green, yellow with yellow, red with red.
\<close>

theorem color_follows_state:
  "distinct [SEMAPHORE_LED_COLOR_GREEN, SEMAPHORE_LED_COLOR_YELLOW, SEMAPHORE_LED_COLOR_RED]
   \<and> ((g_sempahore_state (snd (run es)) = SEMAPHORE_GREEN_STATE \<and>
         g_semaphore_led_color (snd (run es)) = SEMAPHORE_LED_COLOR_GREEN) \<or>
       (g_sempahore_state (snd (run es)) = SEMAPHORE_YELLOW_STATE \<and>
         g_semaphore_led_color (snd (run es)) = SEMAPHORE_LED_COLOR_YELLOW) \<or>
       (g_sempahore_state (snd (run es)) = SEMAPHORE_RED_STATE \<and>
         g_semaphore_led_color (snd (run es)) = SEMAPHORE_LED_COLOR_RED))"
proof
  show "distinct
      [SEMAPHORE_LED_COLOR_GREEN, SEMAPHORE_LED_COLOR_YELLOW, SEMAPHORE_LED_COLOR_RED]"
    by (simp add: semaphore_consts)
  from paired_run [of es]
  show "(g_sempahore_state (snd (run es)) = SEMAPHORE_GREEN_STATE \<and>
         g_semaphore_led_color (snd (run es)) = SEMAPHORE_LED_COLOR_GREEN) \<or>
       (g_sempahore_state (snd (run es)) = SEMAPHORE_YELLOW_STATE \<and>
         g_semaphore_led_color (snd (run es)) = SEMAPHORE_LED_COLOR_YELLOW) \<or>
       (g_sempahore_state (snd (run es)) = SEMAPHORE_RED_STATE \<and>
         g_semaphore_led_color (snd (run es)) = SEMAPHORE_LED_COLOR_RED)"
    unfolding paired_def by blast
qed

section \<open>The button\<close>

text \<open>
  C5. A pass of the button task with the button pressed, in night mode, sets phase green
  and remaining 9 (and colour green, mode day), whatever phase and remaining were.
\<close>

theorem night_to_day_resets:
  "g_semaphore_mode g = SEMAPHORE_NIGHT_MODE \<Longrightarrow>
   vPushButtonTask_pass False g
   = \<lparr> g_semaphore_counter = 9, g_sempahore_state = SEMAPHORE_GREEN_STATE,
       g_semaphore_led_color = SEMAPHORE_LED_COLOR_GREEN,
       g_semaphore_mode = SEMAPHORE_DAILY_MODE \<rparr>"
  by (simp add: vPushButtonTask_pass_def SEMAPHORE_GREEN_DURATION_SEC_def)

theorem night_to_day_resets_witness:
  "vPushButtonTask_pass False
     \<lparr> g_semaphore_counter = 4, g_sempahore_state = SEMAPHORE_RED_STATE,
       g_semaphore_led_color = SEMAPHORE_LED_COLOR_RED,
       g_semaphore_mode = SEMAPHORE_NIGHT_MODE \<rparr>
   = \<lparr> g_semaphore_counter = 9, g_sempahore_state = SEMAPHORE_GREEN_STATE,
       g_semaphore_led_color = SEMAPHORE_LED_COLOR_GREEN,
       g_semaphore_mode = SEMAPHORE_DAILY_MODE \<rparr>"
  using night_to_day_resets
          [of "\<lparr> g_semaphore_counter = 4, g_sempahore_state = SEMAPHORE_RED_STATE,
                 g_semaphore_led_color = SEMAPHORE_LED_COLOR_RED,
                 g_semaphore_mode = SEMAPHORE_NIGHT_MODE \<rparr>"]
  by simp

text \<open>
  C6. A pass of the button task with the button pressed, in day mode, changes the mode to
  night and nothing else: phase, remaining and colour are as before. A second such pass
  gives (day, green, 9).
\<close>

theorem day_to_night_freezes:
  "g_semaphore_mode g = SEMAPHORE_DAILY_MODE \<Longrightarrow>
   vPushButtonTask_pass False g = g\<lparr> g_semaphore_mode := SEMAPHORE_NIGHT_MODE \<rparr>
   \<and> vPushButtonTask_pass False (vPushButtonTask_pass False g)
   = \<lparr> g_semaphore_counter = 9, g_sempahore_state = SEMAPHORE_GREEN_STATE,
       g_semaphore_led_color = SEMAPHORE_LED_COLOR_GREEN,
       g_semaphore_mode = SEMAPHORE_DAILY_MODE \<rparr>"
  by (simp add: vPushButtonTask_pass_def semaphore_consts)

theorem day_to_night_freezes_witness:
  "vPushButtonTask_pass False
     \<lparr> g_semaphore_counter = 4, g_sempahore_state = SEMAPHORE_RED_STATE,
       g_semaphore_led_color = SEMAPHORE_LED_COLOR_RED,
       g_semaphore_mode = SEMAPHORE_DAILY_MODE \<rparr>
   = \<lparr> g_semaphore_counter = 4, g_sempahore_state = SEMAPHORE_RED_STATE,
       g_semaphore_led_color = SEMAPHORE_LED_COLOR_RED,
       g_semaphore_mode = SEMAPHORE_NIGHT_MODE \<rparr>
   \<and> vPushButtonTask_pass False (vPushButtonTask_pass False
     \<lparr> g_semaphore_counter = 4, g_sempahore_state = SEMAPHORE_RED_STATE,
       g_semaphore_led_color = SEMAPHORE_LED_COLOR_RED,
       g_semaphore_mode = SEMAPHORE_DAILY_MODE \<rparr>)
   = \<lparr> g_semaphore_counter = 9, g_sempahore_state = SEMAPHORE_GREEN_STATE,
       g_semaphore_led_color = SEMAPHORE_LED_COLOR_GREEN,
       g_semaphore_mode = SEMAPHORE_DAILY_MODE \<rparr>"
proof -
  have day: "g_semaphore_mode
      \<lparr> g_semaphore_counter = 4, g_sempahore_state = SEMAPHORE_RED_STATE,
        g_semaphore_led_color = SEMAPHORE_LED_COLOR_RED,
        g_semaphore_mode = SEMAPHORE_DAILY_MODE \<rparr> = SEMAPHORE_DAILY_MODE"
    by simp
  have upd: "\<lparr> g_semaphore_counter = 4, g_sempahore_state = SEMAPHORE_RED_STATE,
        g_semaphore_led_color = SEMAPHORE_LED_COLOR_RED,
        g_semaphore_mode = SEMAPHORE_DAILY_MODE \<rparr>
      \<lparr> g_semaphore_mode := SEMAPHORE_NIGHT_MODE \<rparr>
      = \<lparr> g_semaphore_counter = 4, g_sempahore_state = SEMAPHORE_RED_STATE,
        g_semaphore_led_color = SEMAPHORE_LED_COLOR_RED,
        g_semaphore_mode = SEMAPHORE_NIGHT_MODE \<rparr>"
    by simp
  from day_to_night_freezes [OF day] show ?thesis
    unfolding upd .
qed

section \<open>The text on the display\<close>

text \<open>
  C8 as stated fails on the words: in day mode and phase green the display task draws
  the string "Siga", and it draws no string "go".
\<close>

theorem vDisplayTask_go_counterexample:
  "vDisplayTask_pass
     \<lparr> g_semaphore_counter = 9, g_sempahore_state = SEMAPHORE_GREEN_STATE,
       g_semaphore_led_color = SEMAPHORE_LED_COLOR_GREEN,
       g_semaphore_mode = SEMAPHORE_DAILY_MODE \<rparr>
   = [Oledgfx_clear_line 40, Ssd1306_draw_string ''Siga'' 24 40, Oledgfx_render]
   \<and> Ssd1306_draw_string ''go'' 24 40 \<notin> set (vDisplayTask_pass
     \<lparr> g_semaphore_counter = 9, g_sempahore_state = SEMAPHORE_GREEN_STATE,
       g_semaphore_led_color = SEMAPHORE_LED_COLOR_GREEN,
       g_semaphore_mode = SEMAPHORE_DAILY_MODE \<rparr>)"
  by (simp add: vDisplayTask_pass_def)

text \<open>
  C8, as the code has it. The display task clears the text line, draws the cue and
  renders: in day mode "Siga" in phase green, "Atencao" in phase yellow, "Pare" in phase
  red; in night mode it draws no text at all, whatever the phase.
\<close>

theorem vDisplayTask_cue:
  "vDisplayTask_pass
     \<lparr> g_semaphore_counter = c, g_sempahore_state = SEMAPHORE_GREEN_STATE,
       g_semaphore_led_color = k, g_semaphore_mode = SEMAPHORE_DAILY_MODE \<rparr>
   = [Oledgfx_clear_line 40, Ssd1306_draw_string ''Siga'' 24 40, Oledgfx_render]
   \<and> vDisplayTask_pass
     \<lparr> g_semaphore_counter = c, g_sempahore_state = SEMAPHORE_YELLOW_STATE,
       g_semaphore_led_color = k, g_semaphore_mode = SEMAPHORE_DAILY_MODE \<rparr>
   = [Oledgfx_clear_line 40, Ssd1306_draw_string ''Atencao'' 24 40, Oledgfx_render]
   \<and> vDisplayTask_pass
     \<lparr> g_semaphore_counter = c, g_sempahore_state = SEMAPHORE_RED_STATE,
       g_semaphore_led_color = k, g_semaphore_mode = SEMAPHORE_DAILY_MODE \<rparr>
   = [Oledgfx_clear_line 40, Ssd1306_draw_string ''Pare'' 24 40, Oledgfx_render]
   \<and> vDisplayTask_pass
     \<lparr> g_semaphore_counter = c, g_sempahore_state = s,
       g_semaphore_led_color = k, g_semaphore_mode = SEMAPHORE_NIGHT_MODE \<rparr>
   = [Oledgfx_clear_line 40, Oledgfx_render]"
  by (simp add: vDisplayTask_pass_def semaphore_consts)

end
